theory Spec2Isabelle
  imports Main "HOL-Library.Word" "HOL-Library.Sublist"
begin

unbundle bit_operations_syntax

section \<open>Python values\<close>

text \<open>
  Tool arguments arrive as a JSON object, so an argument value is any JSON value. A Python
  \<open>float\<close> is an IEEE-754 double and is kept as its 64-bit pattern: the program never
  computes with it, it only hands it on. A \<open>dict\<close> with string keys is an association
  list read with \<open>map_of\<close> (the first binding of a key is the one the dict holds).
\<close>

datatype pyval =
    PNone
  | PBool bool
  | PInt int
  | PFloat "64 word"
  | PStr string
  | PList "pyval list"
  | PDict "(string \<times> pyval) list"

type_synonym pydict = "(string \<times> pyval) list"

type_synonym byte = "8 word"

definition float_0_7 :: "64 word" where
  \<comment> \<open>the double that the literal \<open>0.7\<close> denotes\<close>
  "float_0_7 = 0x3FE6666666666666"

subsection \<open>Exceptions\<close>

text \<open>
  Every exception of the model is an instance of Python's \<open>Exception\<close>. The three classes
  the program raises itself (or through a dict or list lookup) are constructors of their
  own; \<open>OtherException cls msg\<close> is any other \<open>Exception\<close> raised by a collaborator
  (the file system, the OpenAI client), with its class name and its \<open>str()\<close>.
  Task cancellation and interpreter exit (\<open>BaseException\<close> outside \<open>Exception\<close>) are not
  failures of a tool call and are outside the model.
\<close>

datatype exn =
    ValueError string
  | KeyError string
  | IndexError string
  | OtherException string string

fun str_exn :: "exn \<Rightarrow> string" where
  "str_exn (ValueError msg) = msg"
| "str_exn (KeyError k) = [CHR 0x27] @ k @ [CHR 0x27]"
  \<comment> \<open>\<open>str(KeyError(k))\<close> is \<open>repr(k)\<close>: the key in single quotes, for a key without
      quotes, backslashes or control characters (the program's keys are such literals)\<close>
| "str_exn (IndexError msg) = msg"
| "str_exn (OtherException cls msg) = msg"

definition getitem :: "pydict \<Rightarrow> string \<Rightarrow> exn + pyval" where
  \<comment> \<open>\<open>d[k]\<close>\<close>
  "getitem d k = (case map_of d k of None \<Rightarrow> Inl (KeyError k) | Some v \<Rightarrow> Inr v)"

definition get_default :: "pydict \<Rightarrow> string \<Rightarrow> pyval \<Rightarrow> pyval" where
  \<comment> \<open>\<open>d.get(k, default)\<close>\<close>
  "get_default d k dflt = (case map_of d k of None \<Rightarrow> dflt | Some v \<Rightarrow> v)"

fun format_optional :: "string option \<Rightarrow> string" where
  \<comment> \<open>an f-string field \<open>{x}\<close> for \<open>x: Optional[str]\<close>\<close>
  "format_optional None = ''None''"
| "format_optional (Some s) = s"

subsection \<open>base64.b64encode\<close>

definition b64_alphabet :: string where
  "b64_alphabet = ''ABCDEFGHIJKLMNOPQRSTUVWXYZabcdefghijklmnopqrstuvwxyz0123456789+/''"

definition b64_char :: "byte \<Rightarrow> char" where
  "b64_char w = b64_alphabet ! unat (w AND 63)"

fun b64encode :: "byte list \<Rightarrow> string" where
  "b64encode [] = []"
| "b64encode [a] =
     [b64_char (drop_bit 2 a), b64_char (push_bit 4 (a AND 3)), CHR ''='', CHR ''='']"
| "b64encode [a, b] =
     [b64_char (drop_bit 2 a), b64_char (push_bit 4 (a AND 3) OR drop_bit 4 b),
      b64_char (push_bit 2 (b AND 15)), CHR ''='']"
| "b64encode (a # b # c # rest) =
     [b64_char (drop_bit 2 a), b64_char (push_bit 4 (a AND 3) OR drop_bit 4 b),
      b64_char (push_bit 2 (b AND 15) OR drop_bit 6 c), b64_char (c AND 63)]
     @ b64encode rest"

section \<open>The collaborators and the observable effects\<close>

text \<open>
  \<open>chat_request\<close> holds the keyword arguments of one
  \<open>client.chat.completions.create\<close> call; \<open>completion\<close> is what the call returns, as far
  as the program reads it (\<open>response.choices[0].message.content\<close>).
\<close>

record chat_request =
  req_messages :: pyval
  req_model :: pyval
  req_temperature :: pyval
  req_max_tokens :: pyval

record chat_message =
  content :: "string option"

record choice =
  message :: chat_message

record completion =
  choices :: "choice list"

text \<open>
  The environment of a call: what reading a file gives (\<open>open(path, "rb")\<close> and
  \<open>read()\<close> together) and what the remote endpoint answers. Either may raise.
\<close>

record env =
  open_read :: "pyval \<Rightarrow> exn + byte list"
  create :: "chat_request \<Rightarrow> exn + completion"

text \<open>
  The effects of a call: the requests handed to \<open>client.chat.completions.create\<close>
  (one entry per call of it, whether it then answers or raises) and the lines written
  with \<open>logger.error\<close>, both oldest first.
\<close>

record world =
  sent :: "chat_request list"
  logged :: "string list"

definition logger_error :: "string \<Rightarrow> world \<Rightarrow> world" where
  "logger_error msg w = w\<lparr>logged := logged w @ [msg]\<rparr>"

section \<open>llm.py: LLMConnector\<close>

definition text_messages :: "pyval \<Rightarrow> pyval" where
  "text_messages query =
     PList [PDict [(''role'', PStr ''system''),
                   (''content'', PStr ''You are a helpful assistant.'')],
            PDict [(''role'', PStr ''user''), (''content'', query)]]"

definition vision_messages :: "pyval \<Rightarrow> string \<Rightarrow> pyval" where
  "vision_messages query base64_image =
     PList [PDict [(''role'', PStr ''system''),
                   (''content'', PStr ''You are a helpful assistant that can analyze images.'')],
            PDict [(''role'', PStr ''user''),
                   (''content'',
                    PList [PDict [(''type'', PStr ''text''), (''text'', query)],
                           PDict [(''type'', PStr ''image_url''),
                                  (''image_url'',
                                   PDict [(''url'',
                                     PStr (''data:image/jpeg;base64,'' @ base64_image))])]])]]"

definition first_choice_content :: "completion \<Rightarrow> exn + string option" where
  \<comment> \<open>\<open>response.choices[0].message.content\<close>\<close>
  "first_choice_content response =
     (case choices response of
        [] \<Rightarrow> Inl (IndexError ''list index out of range'')
      | c # _ \<Rightarrow> Inr (content (message c)))"

definition chat_completion :: "env \<Rightarrow> chat_request \<Rightarrow> world \<Rightarrow> (exn + string option) \<times> world" where
  \<comment> \<open>the \<open>await ...create(...)\<close> and the \<open>return\<close> after it, common to both methods\<close>
  "chat_completion env request w =
     (case create env request of
        Inl e \<Rightarrow> Inl e
      | Inr response \<Rightarrow> first_choice_content response,
      w\<lparr>sent := sent w @ [request]\<rparr>)"

definition ask_openai ::
  "env \<Rightarrow> pyval \<Rightarrow> pyval \<Rightarrow> pyval \<Rightarrow> pyval \<Rightarrow> world \<Rightarrow> (exn + string option) \<times> world" where
  "ask_openai env query model temperature max_tokens w =
     (case chat_completion env
             \<lparr>req_messages = text_messages query, req_model = model,
              req_temperature = temperature, req_max_tokens = max_tokens\<rparr> w of
        (Inl e, w') \<Rightarrow> (Inl e, logger_error (''Failed to query OpenAI: '' @ str_exn e) w')
      | (Inr answer, w') \<Rightarrow> (Inr answer, w'))"

definition ask_openai_vision ::
  "env \<Rightarrow> pyval \<Rightarrow> pyval \<Rightarrow> pyval \<Rightarrow> pyval \<Rightarrow> pyval \<Rightarrow> world
     \<Rightarrow> (exn + string option) \<times> world" where
  "ask_openai_vision env query image_path model temperature max_tokens w =
     (case (case open_read env image_path of
              Inl e \<Rightarrow> (Inl e, w)
            | Inr image_data \<Rightarrow>
                chat_completion env
                  \<lparr>req_messages = vision_messages query (b64encode image_data),
                   req_model = model, req_temperature = temperature,
                   req_max_tokens = max_tokens\<rparr> w) of
        (Inl e, w') \<Rightarrow>
          (Inl e, logger_error (''Failed to query OpenAI Vision: '' @ str_exn e) w')
      | (Inr answer, w') \<Rightarrow> (Inr answer, w'))"

section \<open>server.py: the tool catalog and the dispatcher\<close>

text \<open>
  The names are the source's: the text tool is \<open>ask-openai\<close>, the vision tool is
  \<open>ask-openai-vision\<close>, the image reference is the argument \<open>image_path\<close> and the
  output-length bound is \<open>max_tokens\<close>.
\<close>

record tool =
  tool_name :: string
  description :: string
  inputSchema :: pyval

record text_content =
  type :: string
  "text" :: string

definition temperature_schema :: pyval where
  "temperature_schema =
     PDict [(''type'', PStr ''number''), (''default'', PFloat float_0_7),
            (''minimum'', PInt 0), (''maximum'', PInt 2)]"

definition max_tokens_schema :: pyval where
  "max_tokens_schema =
     PDict [(''type'', PStr ''integer''), (''default'', PInt 500),
            (''minimum'', PInt 1), (''maximum'', PInt 4000)]"

definition handle_list_tools :: "tool list" where
  "handle_list_tools =
     [\<lparr>tool_name = ''ask-openai'',
       description = ''Ask my assistant models a direct question'',
       inputSchema =
         PDict [(''type'', PStr ''object''),
                (''properties'',
                 PDict [(''query'', PDict [(''type'', PStr ''string''),
                                           (''description'', PStr ''Ask assistant'')]),
                        (''model'', PDict [(''type'', PStr ''string''),
                                           (''default'', PStr ''gpt-4''),
                                           (''enum'', PList [PStr ''gpt-4'',
                                                             PStr ''gpt-3.5-turbo''])]),
                        (''temperature'', temperature_schema),
                        (''max_tokens'', max_tokens_schema)]),
                (''required'', PList [PStr ''query''])]\<rparr>,
      \<lparr>tool_name = ''ask-openai-vision'',
       description = ''Ask my vision-capable models about an image'',
       inputSchema =
         PDict [(''type'', PStr ''object''),
                (''properties'',
                 PDict [(''query'', PDict [(''type'', PStr ''string''),
                                           (''description'', PStr ''Question about the image'')]),
                        (''image_path'', PDict [(''type'', PStr ''string''),
                                                (''description'', PStr ''Path to the image file'')]),
                        (''model'', PDict [(''type'', PStr ''string''),
                                           (''default'', PStr ''gpt-4o''),
                                           (''enum'', PList [PStr ''gpt-4o'',
                                                             PStr ''gpt-4o-mini''])]),
                        (''temperature'', temperature_schema),
                        (''max_tokens'', max_tokens_schema)]),
                (''required'', PList [PStr ''query'', PStr ''image_path''])]\<rparr>]"

text \<open>
  The body of the \<open>try\<close> statement of \<open>handle_tool_call\<close>: \<open>Inl e\<close> when it raises
  \<open>e\<close>, \<open>Inr r\<close> when it returns \<open>r\<close>. Keyword arguments are evaluated left to right, so
  a missing \<open>query\<close> is found before a missing \<open>image_path\<close>, and both before the
  connector is called.
\<close>

definition tool_call_try ::
  "env \<Rightarrow> string \<Rightarrow> pydict option \<Rightarrow> world \<Rightarrow> (exn + text_content list) \<times> world" where
  "tool_call_try env name arguments w =
     (case arguments of
        None \<Rightarrow> (Inl (ValueError ''No arguments provided''), w)
      | Some args \<Rightarrow>
          if args = [] then (Inl (ValueError ''No arguments provided''), w)
          else if name = ''ask-openai'' then
            (case getitem args ''query'' of
               Inl e \<Rightarrow> (Inl e, w)
             | Inr query \<Rightarrow>
                 (case ask_openai env query
                         (get_default args ''model'' (PStr ''gpt-4''))
                         (get_default args ''temperature'' (PFloat float_0_7))
                         (get_default args ''max_tokens'' (PInt 500)) w of
                    (Inl e, w') \<Rightarrow> (Inl e, w')
                  | (Inr response, w') \<Rightarrow>
                      (Inr [\<lparr>type = ''text'',
                             text = ''OpenAI Response:\<newline>'' @ format_optional response\<rparr>],
                       w')))
          else if name = ''ask-openai-vision'' then
            (case getitem args ''query'' of
               Inl e \<Rightarrow> (Inl e, w)
             | Inr query \<Rightarrow>
                 (case getitem args ''image_path'' of
                    Inl e \<Rightarrow> (Inl e, w)
                  | Inr image_path \<Rightarrow>
                      (case ask_openai_vision env query image_path
                              (get_default args ''model'' (PStr ''gpt-4o''))
                              (get_default args ''temperature'' (PFloat float_0_7))
                              (get_default args ''max_tokens'' (PInt 500)) w of
                         (Inl e, w') \<Rightarrow> (Inl e, w')
                       | (Inr response, w') \<Rightarrow>
                           (Inr [\<lparr>type = ''text'',
                                  text = ''OpenAI Vision Response:\<newline>''
                                         @ format_optional response\<rparr>],
                            w'))))
          else (Inl (ValueError (''Unknown tool: '' @ name)), w))"

text \<open>
  \<open>handle_tool_call\<close> is a Python function like any other: its result is a value or a
  raised exception. The \<open>except Exception\<close> clause logs and returns the error item.
\<close>

definition handle_tool_call ::
  "env \<Rightarrow> string \<Rightarrow> pydict option \<Rightarrow> world \<Rightarrow> (exn + text_content list) \<times> world" where
  "handle_tool_call env name arguments w =
     (case tool_call_try env name arguments w of
        (Inr result, w') \<Rightarrow> (Inr result, w')
      | (Inl e, w') \<Rightarrow>
          (Inr [\<lparr>type = ''text'', text = ''Error: '' @ str_exn e\<rparr>],
           logger_error (''Tool call failed: '' @ str_exn e) w'))"

section \<open>Notions read off the catalog\<close>

definition catalog_names :: "string list" where
  "catalog_names = map tool_name handle_list_tools"

definition declared_keys :: "string \<Rightarrow> string list" where
  \<comment> \<open>the argument names under \<open>properties\<close> in the schema of the tool called \<open>name\<close>\<close>
  "declared_keys name =
     (case find (\<lambda>t. tool_name t = name) handle_list_tools of
        None \<Rightarrow> []
      | Some t \<Rightarrow>
          (case inputSchema t of
             PDict schema \<Rightarrow>
               (case map_of schema ''properties'' of
                  Some (PDict props) \<Rightarrow> map fst props
                | _ \<Rightarrow> [])
           | _ \<Rightarrow> []))"

section \<open>Example environments\<close>

text \<open>
  Concrete collaborators for the instances below: a file system with one readable file
  (the first four bytes of a PNG image) in which every other path is missing, an
  endpoint that answers every request with the same text, and one that fails every
  request.
\<close>

definition no_effects :: world where
  "no_effects = \<lparr>sent = [], logged = []\<rparr>"

definition example_files :: "pyval \<Rightarrow> exn + byte list" where
  "example_files p =
     (case p of
        PStr path \<Rightarrow>
          if path = ''/cat.png'' then Inr [0x89, 0x50, 0x4E, 0x47]
          else Inl (OtherException ''FileNotFoundError''
                 (''[Errno 2] No such file or directory: '' @ [CHR 0x27] @ path @ [CHR 0x27]))
      | _ \<Rightarrow> Inl (OtherException ''TypeError'' ''expected str, bytes or os.PathLike object''))"

definition answering :: "string \<Rightarrow> env" where
  "answering s =
     \<lparr>open_read = example_files,
      create = (\<lambda>request. Inr \<lparr>choices = [\<lparr>message = \<lparr>content = Some s\<rparr>\<rparr>]\<rparr>)\<rparr>"

definition failing :: "string \<Rightarrow> env" where
  "failing msg =
     \<lparr>open_read = example_files,
      create = (\<lambda>request. Inl (OtherException ''APIConnectionError'' msg))\<rparr>"

section \<open>Basic facts\<close>

lemma catalog_names_eq: "catalog_names = [''ask-openai'', ''ask-openai-vision'']"
  by (simp add: catalog_names_def handle_list_tools_def)

lemma declared_keys_text:
  "declared_keys ''ask-openai'' = [''query'', ''model'', ''temperature'', ''max_tokens'']"
  by (simp add: declared_keys_def handle_list_tools_def)

lemma declared_keys_vision:
  "declared_keys ''ask-openai-vision'' =
     [''query'', ''image_path'', ''model'', ''temperature'', ''max_tokens'']"
  by (simp add: declared_keys_def handle_list_tools_def)

lemma b64encode_rfc4648:
  "b64encode [0x66, 0x6F, 0x6F, 0x62, 0x61, 0x72] = ''Zm9vYmFy''"
  "b64encode [0x66, 0x6F, 0x6F, 0x62, 0x61] = ''Zm9vYmE=''"
  "b64encode [0x66, 0x6F, 0x6F, 0x62] = ''Zm9vYg==''"
  by (simp_all add: b64_char_def b64_alphabet_def)

lemma b64encode_png_header: "b64encode [0x89, 0x50, 0x4E, 0x47] = ''iVBORw==''"
  by (simp add: b64_char_def b64_alphabet_def)

lemma length_b64encode: "length (b64encode bs) = 4 * ((length bs + 2) div 3)"
proof (induction bs rule: b64encode.induct)
  case (4 a b c rest)
  have "(length rest + 5) div 3 = Suc ((length rest + 2) div 3)" by arith
  with 4 show ?case by (simp add: add.commute)
qed simp_all

lemma example_files_cat:
  "example_files (PStr ''/cat.png'') = Inr [0x89, 0x50, 0x4E, 0x47]"
  by (simp add: example_files_def)

lemma example_files_missing:
  "example_files (PStr ''/missing.jpg'')
     = Inl (OtherException ''FileNotFoundError''
         (''[Errno 2] No such file or directory: '' @ [CHR 0x27] @ ''/missing.jpg''
          @ [CHR 0x27]))"
  by (simp add: example_files_def)

lemma answering_text: "fst (ask_openai (answering s) q m t n w) = Inr (Some s)"
  by (simp add: ask_openai_def chat_completion_def answering_def first_choice_content_def)

lemma answering_vision:
  "fst (ask_openai_vision (answering s) q (PStr ''/cat.png'') m t n w) = Inr (Some s)"
  by (simp add: ask_openai_vision_def chat_completion_def answering_def
      first_choice_content_def example_files_def)

text \<open>
  Whenever the \<open>try\<close> block returns, it returns exactly one text item, and its text
  starts with the tool's label, never with the error prefix.
\<close>

lemma try_returns_one_item:
  "fst (tool_call_try env name arguments w) = Inr r \<Longrightarrow>
   \<exists>s. r = [\<lparr>type = ''text'', text = s\<rparr>] \<and> \<not> prefix ''Error: '' s"
  by (auto simp: tool_call_try_def split: option.splits if_splits sum.splits prod.splits)

text \<open>How the \<open>except\<close> clause maps the two outcomes of the \<open>try\<close> block.\<close>

lemma handle_of_try_return:
  "fst (tool_call_try env name arguments w) = Inr r \<Longrightarrow>
   fst (handle_tool_call env name arguments w) = Inr r"
  by (cases "tool_call_try env name arguments w") (simp add: handle_tool_call_def)

lemma handle_of_try_raise:
  "fst (tool_call_try env name arguments w) = Inl e \<Longrightarrow>
   fst (handle_tool_call env name arguments w)
     = Inr [\<lparr>type = ''text'', text = ''Error: '' @ str_exn e\<rparr>]"
  by (cases "tool_call_try env name arguments w") (simp add: handle_tool_call_def)

section \<open>The dispatcher as error boundary\<close>

text \<open>
  Where the exceptions of the \<open>try\<close> block come from: the two \<open>raise\<close> statements,
  the two dict lookups, the file read, the endpoint, and an empty \<open>choices\<close> list.
\<close>

lemma tool_call_try_raises:
  "fst (tool_call_try env name arguments w) = Inl e \<Longrightarrow>
   e = ValueError ''No arguments provided'' \<or>
   e = ValueError (''Unknown tool: '' @ name) \<or>
   e = KeyError ''query'' \<or>
   e = KeyError ''image_path'' \<or>
   (\<exists>p. open_read env p = Inl e) \<or>
   (\<exists>r. create env r = Inl e) \<or>
   e = IndexError ''list index out of range''"
  by (auto simp: tool_call_try_def getitem_def ask_openai_def ask_openai_vision_def
      chat_completion_def first_choice_content_def
      split: option.splits if_splits sum.splits prod.splits list.splits)

text \<open>
  C1. For every tool name, every arguments value (\<open>None\<close>, the empty dict, or any other
  dict) and every behaviour of the file system and the endpoint, \<open>handle_tool_call\<close>
  returns (it never raises), and what it returns is one text item. Whatever exception
  \<open>e\<close> the \<open>try\<close> block raises, wherever it arose, the item's text is \<open>Error: \<close>
  followed by \<open>str(e)\<close>.
\<close>

theorem handle_tool_call_never_raises:
  "\<exists>t. fst (handle_tool_call env name arguments w) = Inr [\<lparr>type = ''text'', text = t\<rparr>] \<and>
       (\<forall>e. fst (tool_call_try env name arguments w) = Inl e \<longrightarrow> t = ''Error: '' @ str_exn e)"
proof (cases "tool_call_try env name arguments w")
  case (Pair outcome w')
  show ?thesis
  proof (cases outcome)
    case (Inl e)
    with Pair show ?thesis by (simp add: handle_tool_call_def)
  next
    case (Inr r)
    with Pair try_returns_one_item [of env name arguments w r]
    show ?thesis by (auto simp: handle_tool_call_def)
  qed
qed

text \<open>
  An instance: the endpoint refuses the connection, the exception travels through
  \<open>ask_openai\<close> (which logs and re-raises it) and comes out as an error item.
\<close>

theorem handle_tool_call_never_raises_witness:
  "fst (handle_tool_call (failing ''Connection error.'') ''ask-openai''
          (Some [(''query'', PStr ''2+2?'')]) no_effects)
   = Inr [\<lparr>type = ''text'', text = ''Error: Connection error.''\<rparr>]"
proof -
  have raised: "fst (tool_call_try (failing ''Connection error.'') ''ask-openai''
                  (Some [(''query'', PStr ''2+2?'')]) no_effects)
                = Inl (OtherException ''APIConnectionError'' ''Connection error.'')"
    by (simp add: tool_call_try_def getitem_def get_default_def ask_openai_def
        chat_completion_def failing_def)
  from handle_tool_call_never_raises
    [of "failing ''Connection error.''" "''ask-openai''" "Some [(''query'', PStr ''2+2?'')]"
        no_effects]
  obtain t where
    "fst (handle_tool_call (failing ''Connection error.'') ''ask-openai''
            (Some [(''query'', PStr ''2+2?'')]) no_effects)
     = Inr [\<lparr>type = ''text'', text = t\<rparr>]"
    and "\<forall>e. fst (tool_call_try (failing ''Connection error.'') ''ask-openai''
                  (Some [(''query'', PStr ''2+2?'')]) no_effects) = Inl e
             \<longrightarrow> t = ''Error: '' @ str_exn e"
    by blast
  with raised show ?thesis by simp
qed

section \<open>Unknown tools and missing arguments\<close>

text \<open>
  C2, as the specification states it, fails: the check for empty arguments comes before
  any look at the tool name, so the unknown name \<open>bogus\<close> with the empty dict is
  answered with \<open>Error: No arguments provided\<close>, a text that does not contain the name.
\<close>

theorem unknown_tool_empty_arguments_counterexample:
  "''bogus'' \<notin> set catalog_names \<and>
   fst (handle_tool_call (answering ''4'') ''bogus'' (Some []) no_effects)
     = Inr [\<lparr>type = ''text'', text = ''Error: No arguments provided''\<rparr>] \<and>
   \<not> sublist ''bogus'' ''Error: No arguments provided'' \<and>
   fst (handle_tool_call (answering ''4'') ''bogus'' (Some []) no_effects)
     \<noteq> Inr [\<lparr>type = ''text'', text = ''Error: Unknown tool: bogus''\<rparr>]"
  by (simp add: catalog_names_eq handle_tool_call_def tool_call_try_def sublist_Cons_right)

text \<open>
  C2, amended. For every tool name that the catalog does not declare and every non-empty
  arguments dict, the \<open>try\<close> block raises \<open>ValueError\<close> and the call returns the error
  item \<open>Error: Unknown tool: \<close> followed by the name, without any request to the
  endpoint. With \<open>None\<close> or the empty dict the call returns
  \<open>Error: No arguments provided\<close>, whatever the tool name.
\<close>

theorem unknown_tool_error:
  "(name \<notin> set catalog_names \<and> args \<noteq> [] \<longrightarrow>
      fst (tool_call_try env name (Some args) w) = Inl (ValueError (''Unknown tool: '' @ name)) \<and>
      handle_tool_call env name (Some args) w
        = (Inr [\<lparr>type = ''text'', text = ''Error: Unknown tool: '' @ name\<rparr>],
           logger_error (''Tool call failed: Unknown tool: '' @ name) w)) \<and>
   fst (handle_tool_call env name' None w)
     = Inr [\<lparr>type = ''text'', text = ''Error: No arguments provided''\<rparr>] \<and>
   fst (handle_tool_call env name' (Some []) w)
     = Inr [\<lparr>type = ''text'', text = ''Error: No arguments provided''\<rparr>]"
  by (simp add: catalog_names_eq handle_tool_call_def tool_call_try_def)

theorem unknown_tool_error_witness:
  "''bogus'' \<notin> set catalog_names \<and>
   fst (handle_tool_call (answering ''4'') ''bogus'' (Some [(''x'', PInt 1)]) no_effects)
     = Inr [\<lparr>type = ''text'', text = ''Error: Unknown tool: bogus''\<rparr>]"
  using unknown_tool_error [of "''bogus''" "[(''x'', PInt 1)]" "answering ''4''" no_effects]
  by (simp add: catalog_names_eq)

text \<open>
  C5. For a non-empty arguments dict without \<open>query\<close>, both tools raise
  \<open>KeyError('query')\<close>; for the vision tool with \<open>query\<close> but without \<open>image_path\<close> the
  \<open>try\<close> block raises \<open>KeyError('image_path')\<close>. In each case the call returns the
  error item whose text is \<open>Error: \<close> followed by the missing key in single quotes
  (\<open>query\<close> when the vision tool misses both, since it is looked up first).
\<close>

theorem missing_required_argument:
  "(args \<noteq> [] \<and> map_of args ''query'' = None \<longrightarrow>
      fst (tool_call_try env ''ask-openai'' (Some args) w) = Inl (KeyError ''query'') \<and>
      fst (handle_tool_call env ''ask-openai'' (Some args) w)
        = Inr [\<lparr>type = ''text'', text = ''Error: '' @ [CHR 0x27] @ ''query'' @ [CHR 0x27]\<rparr>] \<and>
      fst (tool_call_try env ''ask-openai-vision'' (Some args) w) = Inl (KeyError ''query'') \<and>
      fst (handle_tool_call env ''ask-openai-vision'' (Some args) w)
        = Inr [\<lparr>type = ''text'', text = ''Error: '' @ [CHR 0x27] @ ''query'' @ [CHR 0x27]\<rparr>]) \<and>
   (map_of args' ''query'' = Some q \<and> map_of args' ''image_path'' = None \<longrightarrow>
      fst (tool_call_try env ''ask-openai-vision'' (Some args') w)
        = Inl (KeyError ''image_path'') \<and>
      fst (handle_tool_call env ''ask-openai-vision'' (Some args') w)
        = Inr [\<lparr>type = ''text'',
                text = ''Error: '' @ [CHR 0x27] @ ''image_path'' @ [CHR 0x27]\<rparr>])"
  by (auto simp: handle_tool_call_def tool_call_try_def getitem_def)

theorem missing_required_argument_witness:
  "fst (handle_tool_call (answering ''4'') ''ask-openai'' (Some [(''model'', PStr ''gpt-4'')])
          no_effects)
     = Inr [\<lparr>type = ''text'', text = ''Error: '' @ [CHR 0x27] @ ''query'' @ [CHR 0x27]\<rparr>] \<and>
   fst (handle_tool_call (answering ''4'') ''ask-openai-vision''
          (Some [(''image_path'', PStr ''/cat.png'')]) no_effects)
     = Inr [\<lparr>type = ''text'', text = ''Error: '' @ [CHR 0x27] @ ''query'' @ [CHR 0x27]\<rparr>] \<and>
   fst (handle_tool_call (answering ''4'') ''ask-openai-vision''
          (Some [(''query'', PStr ''what is this?'')]) no_effects)
     = Inr [\<lparr>type = ''text'', text = ''Error: '' @ [CHR 0x27] @ ''image_path'' @ [CHR 0x27]\<rparr>]"
  using missing_required_argument
    [of "[(''model'', PStr ''gpt-4'')]" "answering ''4''" no_effects
        "[(''query'', PStr ''what is this?'')]" "PStr ''what is this?''"]
    missing_required_argument
    [of "[(''image_path'', PStr ''/cat.png'')]" "answering ''4''" no_effects
        "[(''query'', PStr ''what is this?'')]" "PStr ''what is this?''"]
  by simp

section \<open>Defaults, pass-through and the ok item\<close>

text \<open>
  C3. When \<open>query\<close> is present and \<open>model\<close>, \<open>temperature\<close> and \<open>max_tokens\<close> are
  not, the text tool calls \<open>ask_openai\<close> with the model \<open>gpt-4\<close>, the temperature
  \<open>0.7\<close> and the bound \<open>500\<close>, and these are the values of the one request that
  reaches the endpoint.
\<close>

theorem text_tool_defaults:
  assumes "map_of args ''query'' = Some q"
    and "map_of args ''model'' = None"
    and "map_of args ''temperature'' = None"
    and "map_of args ''max_tokens'' = None"
  shows "tool_call_try env ''ask-openai'' (Some args) w
           = (case ask_openai env q (PStr ''gpt-4'') (PFloat float_0_7) (PInt 500) w of
                (Inl e, w') \<Rightarrow> (Inl e, w')
              | (Inr response, w') \<Rightarrow>
                  (Inr [\<lparr>type = ''text'',
                         text = ''OpenAI Response:\<newline>'' @ format_optional response\<rparr>], w'))
         \<and> sent (snd (handle_tool_call env ''ask-openai'' (Some args) w))
           = sent w @ [\<lparr>req_messages = text_messages q, req_model = PStr ''gpt-4'',
                         req_temperature = PFloat float_0_7, req_max_tokens = PInt 500\<rparr>]"
proof -
  from assms(1) have "args \<noteq> []" by auto
  with assms show ?thesis
    by (simp add: handle_tool_call_def tool_call_try_def getitem_def get_default_def
        ask_openai_def chat_completion_def logger_error_def split: sum.splits)
qed

theorem text_tool_defaults_witness:
  "sent (snd (handle_tool_call (answering ''4'') ''ask-openai''
                (Some [(''query'', PStr ''2+2?'')]) no_effects))
   = [\<lparr>req_messages = text_messages (PStr ''2+2?''), req_model = PStr ''gpt-4'',
        req_temperature = PFloat 0x3FE6666666666666, req_max_tokens = PInt 500\<rparr>]"
  using text_tool_defaults [of "[(''query'', PStr ''2+2?'')]" "PStr ''2+2?''" "answering ''4''"
      no_effects]
  by (simp add: no_effects_def float_0_7_def)

text \<open>
  C4. When the connector's method returns the text \<open>answer\<close>, the \<open>try\<close> block returns
  (the ok path) one text item: the tool's label (\<open>OpenAI Response\<close> for the text tool,
  \<open>OpenAI Vision Response\<close> for the vision tool), a colon, a newline, and \<open>answer\<close>.
\<close>

theorem ok_envelope_label:
  "(map_of args ''query'' = Some q \<and>
    fst (ask_openai env q (get_default args ''model'' (PStr ''gpt-4''))
           (get_default args ''temperature'' (PFloat float_0_7))
           (get_default args ''max_tokens'' (PInt 500)) w) = Inr (Some answer)
    \<longrightarrow> fst (tool_call_try env ''ask-openai'' (Some args) w)
          = Inr [\<lparr>type = ''text'', text = ''OpenAI Response'' @ '':\<newline>'' @ answer\<rparr>] \<and>
        fst (handle_tool_call env ''ask-openai'' (Some args) w)
          = Inr [\<lparr>type = ''text'', text = ''OpenAI Response'' @ '':\<newline>'' @ answer\<rparr>]) \<and>
   (map_of args' ''query'' = Some q' \<and> map_of args' ''image_path'' = Some p \<and>
    fst (ask_openai_vision env' q' p (get_default args' ''model'' (PStr ''gpt-4o''))
           (get_default args' ''temperature'' (PFloat float_0_7))
           (get_default args' ''max_tokens'' (PInt 500)) w') = Inr (Some answer')
    \<longrightarrow> fst (tool_call_try env' ''ask-openai-vision'' (Some args') w')
          = Inr [\<lparr>type = ''text'',
                  text = ''OpenAI Vision Response'' @ '':\<newline>'' @ answer'\<rparr>] \<and>
        fst (handle_tool_call env' ''ask-openai-vision'' (Some args') w')
          = Inr [\<lparr>type = ''text'',
                  text = ''OpenAI Vision Response'' @ '':\<newline>'' @ answer'\<rparr>])"
proof (intro conjI impI)
  assume a: "map_of args ''query'' = Some q \<and>
    fst (ask_openai env q (get_default args ''model'' (PStr ''gpt-4''))
           (get_default args ''temperature'' (PFloat float_0_7))
           (get_default args ''max_tokens'' (PInt 500)) w) = Inr (Some answer)"
  then have "args \<noteq> []" by auto
  with a show ok: "fst (tool_call_try env ''ask-openai'' (Some args) w)
          = Inr [\<lparr>type = ''text'', text = ''OpenAI Response'' @ '':\<newline>'' @ answer\<rparr>]"
    by (auto simp: tool_call_try_def getitem_def split: prod.splits sum.splits)
  then show "fst (handle_tool_call env ''ask-openai'' (Some args) w)
          = Inr [\<lparr>type = ''text'', text = ''OpenAI Response'' @ '':\<newline>'' @ answer\<rparr>]"
    by (rule handle_of_try_return)
next
  assume a: "map_of args' ''query'' = Some q' \<and> map_of args' ''image_path'' = Some p \<and>
    fst (ask_openai_vision env' q' p (get_default args' ''model'' (PStr ''gpt-4o''))
           (get_default args' ''temperature'' (PFloat float_0_7))
           (get_default args' ''max_tokens'' (PInt 500)) w') = Inr (Some answer')"
  then have "args' \<noteq> []" by auto
  with a show ok: "fst (tool_call_try env' ''ask-openai-vision'' (Some args') w')
          = Inr [\<lparr>type = ''text'',
                  text = ''OpenAI Vision Response'' @ '':\<newline>'' @ answer'\<rparr>]"
    by (auto simp: tool_call_try_def getitem_def split: prod.splits sum.splits)
  then show "fst (handle_tool_call env' ''ask-openai-vision'' (Some args') w')
          = Inr [\<lparr>type = ''text'',
                  text = ''OpenAI Vision Response'' @ '':\<newline>'' @ answer'\<rparr>]"
    by (rule handle_of_try_return)
qed

text \<open>
  The scenario of the specification: the endpoint answers \<open>4\<close> to the query \<open>2+2?\<close>.
\<close>

theorem ok_envelope_label_witness:
  "fst (handle_tool_call (answering ''4'') ''ask-openai'' (Some [(''query'', PStr ''2+2?'')])
          no_effects)
     = Inr [\<lparr>type = ''text'', text = ''OpenAI Response:\<newline>4''\<rparr>] \<and>
   fst (handle_tool_call (answering ''a cat'') ''ask-openai-vision''
          (Some [(''query'', PStr ''what is this?''), (''image_path'', PStr ''/cat.png'')])
          no_effects)
     = Inr [\<lparr>type = ''text'', text = ''OpenAI Vision Response:\<newline>a cat''\<rparr>]"
  using ok_envelope_label
    [of "[(''query'', PStr ''2+2?'')]" "PStr ''2+2?''" "answering ''4''" no_effects "''4''"
        "[(''query'', PStr ''what is this?''), (''image_path'', PStr ''/cat.png'')]"
        "PStr ''what is this?''" "PStr ''/cat.png''" "answering ''a cat''" no_effects "''a cat''"]
  by (simp add: answering_text answering_vision)

text \<open>
  C6. Whatever values the arguments dict holds, the request that reaches the endpoint
  carries them as they are: the query inside the user message, and for \<open>model\<close>,
  \<open>temperature\<close> and \<open>max_tokens\<close> the value of the dict when the key is present
  (the default otherwise). Nothing is compared with the \<open>enum\<close>, \<open>minimum\<close> or
  \<open>maximum\<close> of the catalog, and exactly one request is issued. If the endpoint
  then fails with \<open>e\<close>, the call returns the error item for \<open>e\<close>. For the vision
  tool the same holds once the file at \<open>image_path\<close> has been read.
\<close>

theorem arguments_forwarded_unchecked:
  "(map_of args ''query'' = Some q \<and>
    r = \<lparr>req_messages = text_messages q,
          req_model = get_default args ''model'' (PStr ''gpt-4''),
          req_temperature = get_default args ''temperature'' (PFloat float_0_7),
          req_max_tokens = get_default args ''max_tokens'' (PInt 500)\<rparr>
    \<longrightarrow> sent (snd (handle_tool_call env ''ask-openai'' (Some args) w)) = sent w @ [r] \<and>
        (\<forall>v. map_of args ''model'' = Some v \<longrightarrow> req_model r = v) \<and>
        (\<forall>v. map_of args ''temperature'' = Some v \<longrightarrow> req_temperature r = v) \<and>
        (\<forall>v. map_of args ''max_tokens'' = Some v \<longrightarrow> req_max_tokens r = v) \<and>
        (\<forall>e. create env r = Inl e \<longrightarrow>
           fst (handle_tool_call env ''ask-openai'' (Some args) w)
             = Inr [\<lparr>type = ''text'', text = ''Error: '' @ str_exn e\<rparr>])) \<and>
   (map_of args' ''query'' = Some q' \<and> map_of args' ''image_path'' = Some p \<and>
    open_read env' p = Inr image_data \<and>
    r' = \<lparr>req_messages = vision_messages q' (b64encode image_data),
           req_model = get_default args' ''model'' (PStr ''gpt-4o''),
           req_temperature = get_default args' ''temperature'' (PFloat float_0_7),
           req_max_tokens = get_default args' ''max_tokens'' (PInt 500)\<rparr>
    \<longrightarrow> sent (snd (handle_tool_call env' ''ask-openai-vision'' (Some args') w'))
          = sent w' @ [r'] \<and>
        (\<forall>v. map_of args' ''model'' = Some v \<longrightarrow> req_model r' = v) \<and>
        (\<forall>v. map_of args' ''temperature'' = Some v \<longrightarrow> req_temperature r' = v) \<and>
        (\<forall>v. map_of args' ''max_tokens'' = Some v \<longrightarrow> req_max_tokens r' = v) \<and>
        (\<forall>e. create env' r' = Inl e \<longrightarrow>
           fst (handle_tool_call env' ''ask-openai-vision'' (Some args') w')
             = Inr [\<lparr>type = ''text'', text = ''Error: '' @ str_exn e\<rparr>]))"
  by (auto simp: handle_tool_call_def tool_call_try_def getitem_def get_default_def
      ask_openai_def ask_openai_vision_def chat_completion_def logger_error_def
      split: sum.splits)

text \<open>
  An instance with values outside every declared constraint: a model that is not in the
  \<open>enum\<close>, the temperature \<open>99\<close> and the bound \<open>100000\<close>.
\<close>

theorem arguments_forwarded_unchecked_witness:
  "sent (snd (handle_tool_call (failing ''Error code: 400'') ''ask-openai''
                (Some [(''query'', PStr ''hi''), (''model'', PStr ''no-such-model''),
                       (''temperature'', PInt 99), (''max_tokens'', PInt 100000)])
                no_effects))
     = [\<lparr>req_messages = text_messages (PStr ''hi''), req_model = PStr ''no-such-model'',
          req_temperature = PInt 99, req_max_tokens = PInt 100000\<rparr>] \<and>
   fst (handle_tool_call (failing ''Error code: 400'') ''ask-openai''
          (Some [(''query'', PStr ''hi''), (''model'', PStr ''no-such-model''),
                 (''temperature'', PInt 99), (''max_tokens'', PInt 100000)])
          no_effects)
     = Inr [\<lparr>type = ''text'', text = ''Error: Error code: 400''\<rparr>] \<and>
   sent (snd (handle_tool_call (failing ''Error code: 400'') ''ask-openai-vision''
                (Some [(''query'', PStr ''hi''), (''image_path'', PStr ''/cat.png''),
                       (''model'', PStr ''no-such-model''), (''temperature'', PInt 99),
                       (''max_tokens'', PInt 100000)])
                no_effects))
     = [\<lparr>req_messages = vision_messages (PStr ''hi'') ''iVBORw=='',
          req_model = PStr ''no-such-model'', req_temperature = PInt 99,
          req_max_tokens = PInt 100000\<rparr>] \<and>
   fst (handle_tool_call (failing ''Error code: 400'') ''ask-openai-vision''
          (Some [(''query'', PStr ''hi''), (''image_path'', PStr ''/cat.png''),
                 (''model'', PStr ''no-such-model''), (''temperature'', PInt 99),
                 (''max_tokens'', PInt 100000)])
          no_effects)
     = Inr [\<lparr>type = ''text'', text = ''Error: Error code: 400''\<rparr>]"
  using arguments_forwarded_unchecked
    [of "[(''query'', PStr ''hi''), (''model'', PStr ''no-such-model''),
          (''temperature'', PInt 99), (''max_tokens'', PInt 100000)]"
        "PStr ''hi''"
        "\<lparr>req_messages = text_messages (PStr ''hi''), req_model = PStr ''no-such-model'',
          req_temperature = PInt 99, req_max_tokens = PInt 100000\<rparr>"
        "failing ''Error code: 400''" no_effects
        "[(''query'', PStr ''hi''), (''image_path'', PStr ''/cat.png''),
          (''model'', PStr ''no-such-model''), (''temperature'', PInt 99),
          (''max_tokens'', PInt 100000)]"
        "PStr ''hi''" "PStr ''/cat.png''" "failing ''Error code: 400''"
        "[0x89, 0x50, 0x4E, 0x47]"
        "\<lparr>req_messages = vision_messages (PStr ''hi'') ''iVBORw=='',
          req_model = PStr ''no-such-model'', req_temperature = PInt 99,
          req_max_tokens = PInt 100000\<rparr>"
        no_effects]
  by (simp add: get_default_def failing_def example_files_cat b64_char_def b64_alphabet_def
      no_effects_def)

section \<open>The vision operation\<close>

text \<open>
  C7. \<open>ask_openai_vision\<close> reads the file first. When the read gives the bytes
  \<open>image_data\<close>, whatever they are, the one request it issues has a system message and
  a user message of two parts: the query as text, and an \<open>image_url\<close> whose URL is
  \<open>data:image/jpeg;base64,\<close> followed by the base64 encoding of \<open>image_data\<close>. When
  the read fails, the method re-raises the failure and issues no request.
\<close>

theorem vision_request_inline_jpeg:
  "(open_read env image_path = Inr image_data \<longrightarrow>
      sent (snd (ask_openai_vision env query image_path model temperature max_tokens w))
        = sent w @
          [\<lparr>req_messages =
              PList [PDict [(''role'', PStr ''system''),
                            (''content'',
                             PStr ''You are a helpful assistant that can analyze images.'')],
                     PDict [(''role'', PStr ''user''),
                            (''content'',
                             PList [PDict [(''type'', PStr ''text''), (''text'', query)],
                                    PDict [(''type'', PStr ''image_url''),
                                           (''image_url'',
                                            PDict [(''url'',
                                              PStr (''data:image/jpeg;base64,''
                                                    @ b64encode image_data))])]])]],
             req_model = model, req_temperature = temperature,
             req_max_tokens = max_tokens\<rparr>]) \<and>
   (open_read env' image_path' = Inl e \<longrightarrow>
      ask_openai_vision env' query image_path' model temperature max_tokens w
        = (Inl e, logger_error (''Failed to query OpenAI Vision: '' @ str_exn e) w))"
  by (auto simp: ask_openai_vision_def chat_completion_def vision_messages_def logger_error_def
      split: sum.splits)

text \<open>An instance: a PNG file is sent under the label \<open>image/jpeg\<close>.\<close>

theorem vision_request_inline_jpeg_witness:
  "sent (snd (ask_openai_vision (answering ''a cat'') (PStr ''what is this?'') (PStr ''/cat.png'')
                (PStr ''gpt-4o'') (PFloat float_0_7) (PInt 500) no_effects))
     = [\<lparr>req_messages =
          PList [PDict [(''role'', PStr ''system''),
                        (''content'',
                         PStr ''You are a helpful assistant that can analyze images.'')],
                 PDict [(''role'', PStr ''user''),
                        (''content'',
                         PList [PDict [(''type'', PStr ''text''),
                                       (''text'', PStr ''what is this?'')],
                                PDict [(''type'', PStr ''image_url''),
                                       (''image_url'',
                                        PDict [(''url'',
                                          PStr ''data:image/jpeg;base64,iVBORw=='')])]])]],
         req_model = PStr ''gpt-4o'', req_temperature = PFloat float_0_7,
         req_max_tokens = PInt 500\<rparr>] \<and>
   sent (snd (ask_openai_vision (answering ''a cat'') (PStr ''what is this?'')
                (PStr ''/missing.jpg'') (PStr ''gpt-4o'') (PFloat float_0_7) (PInt 500)
                no_effects)) = []"
proof -
  have readable: "open_read (answering ''a cat'') (PStr ''/cat.png'')
                    = Inr [0x89, 0x50, 0x4E, 0x47]"
    by (simp add: answering_def example_files_cat)
  have missing: "open_read (answering ''a cat'') (PStr ''/missing.jpg'')
                    = Inl (OtherException ''FileNotFoundError''
                        (''[Errno 2] No such file or directory: '' @ [CHR 0x27]
                         @ ''/missing.jpg'' @ [CHR 0x27]))"
    by (simp add: answering_def example_files_missing)
  from vision_request_inline_jpeg
    [of "answering ''a cat''" "PStr ''/cat.png''" "[0x89, 0x50, 0x4E, 0x47]"
        "PStr ''what is this?''" "PStr ''gpt-4o''" "PFloat float_0_7" "PInt 500" no_effects
        "answering ''a cat''" "PStr ''/missing.jpg''"
        "OtherException ''FileNotFoundError''
           (''[Errno 2] No such file or directory: '' @ [CHR 0x27] @ ''/missing.jpg''
            @ [CHR 0x27])"]
    readable missing b64encode_png_header
  show ?thesis by (simp add: no_effects_def logger_error_def)
qed

text \<open>
  C8. When the vision tool is called with a query and an \<open>image_path\<close> whose file cannot
  be read, the read's exception \<open>e\<close> is what the \<open>try\<close> block raises; the call returns
  the error item \<open>Error: \<close> followed by \<open>str(e)\<close>, writes two log lines, and issues no
  request to the endpoint.
\<close>

theorem unreadable_image_error:
  assumes "map_of args ''query'' = Some q"
    and "map_of args ''image_path'' = Some p"
    and "open_read env p = Inl e"
  shows "fst (tool_call_try env ''ask-openai-vision'' (Some args) w) = Inl e
         \<and> handle_tool_call env ''ask-openai-vision'' (Some args) w
           = (Inr [\<lparr>type = ''text'', text = ''Error: '' @ str_exn e\<rparr>],
              w\<lparr>logged := logged w @ [''Failed to query OpenAI Vision: '' @ str_exn e,
                                        ''Tool call failed: '' @ str_exn e]\<rparr>)
         \<and> sent (snd (handle_tool_call env ''ask-openai-vision'' (Some args) w)) = sent w"
proof -
  from assms(1) have "args \<noteq> []" by auto
  with assms show ?thesis
    by (simp add: handle_tool_call_def tool_call_try_def getitem_def ask_openai_vision_def
        logger_error_def)
qed

text \<open>The scenario of the specification: the path \<open>/missing.jpg\<close> does not exist.\<close>

theorem unreadable_image_error_witness:
  "fst (handle_tool_call (answering ''a cat'') ''ask-openai-vision''
          (Some [(''query'', PStr ''what is this?''), (''image_path'', PStr ''/missing.jpg'')])
          no_effects)
     = Inr [\<lparr>type = ''text'',
             text = ''Error: [Errno 2] No such file or directory: '' @ [CHR 0x27]
                    @ ''/missing.jpg'' @ [CHR 0x27]\<rparr>] \<and>
   sent (snd (handle_tool_call (answering ''a cat'') ''ask-openai-vision''
          (Some [(''query'', PStr ''what is this?''), (''image_path'', PStr ''/missing.jpg'')])
          no_effects)) = []"
proof -
  have missing: "open_read (answering ''a cat'') (PStr ''/missing.jpg'')
                    = Inl (OtherException ''FileNotFoundError''
                        (''[Errno 2] No such file or directory: '' @ [CHR 0x27]
                         @ ''/missing.jpg'' @ [CHR 0x27]))"
    by (simp add: answering_def example_files_missing)
  from unreadable_image_error
    [of "[(''query'', PStr ''what is this?''), (''image_path'', PStr ''/missing.jpg'')]"
        "PStr ''what is this?''" "PStr ''/missing.jpg''" "answering ''a cat''" _ no_effects,
     OF _ _ missing]
  show ?thesis by (simp add: no_effects_def)
qed

section \<open>The shape of the result\<close>

text \<open>
  C9. Every call returns a list of exactly one item of type \<open>text\<close>, on the path where
  the \<open>try\<close> block returns as on the path where it raises; nothing but the text
  differs. The text begins with \<open>Error: \<close> exactly when the \<open>try\<close> block raised.
\<close>

theorem single_text_item:
  "\<exists>t. fst (handle_tool_call env name arguments w) = Inr [\<lparr>type = ''text'', text = t\<rparr>] \<and>
       isl (fst (tool_call_try env name arguments w)) = prefix ''Error: '' t"
proof (cases "fst (tool_call_try env name arguments w)")
  case (Inl e)
  then show ?thesis by (simp add: handle_of_try_raise)
next
  case (Inr r)
  with try_returns_one_item [of env name arguments w r] show ?thesis
    by (auto simp: handle_of_try_return)
qed

section \<open>Undeclared arguments\<close>

text \<open>
  Two non-empty arguments dicts that agree on the keys the tool's schema declares give
  the same result and the same effects.
\<close>

lemma undeclared_keys_irrelevant:
  assumes "a1 \<noteq> []" and "a2 \<noteq> []"
    and "\<forall>k \<in> set (declared_keys name). map_of a1 k = map_of a2 k"
  shows "handle_tool_call env name (Some a1) w = handle_tool_call env name (Some a2) w"
proof -
  have item: "getitem a1 k = getitem a2 k" and dflt: "get_default a1 k d = get_default a2 k d"
    if "k \<in> set (declared_keys name)" for k d
    using that assms(3) by (simp_all add: getitem_def get_default_def)
  have "tool_call_try env name (Some a1) w = tool_call_try env name (Some a2) w"
  proof (cases "name = ''ask-openai''")
    case True
    then have keys: "set (declared_keys name)
                       = {''query'', ''model'', ''temperature'', ''max_tokens''}"
      by (simp add: declared_keys_text)
    have same: "getitem a1 ''query'' = getitem a2 ''query''"
      "get_default a1 ''model'' d = get_default a2 ''model'' d"
      "get_default a1 ''temperature'' d = get_default a2 ''temperature'' d"
      "get_default a1 ''max_tokens'' d = get_default a2 ''max_tokens'' d" for d
      by (simp_all add: item dflt keys)
    from assms(1,2) True show ?thesis
      by (simp add: tool_call_try_def same split: sum.splits)
  next
    case False
    note not_text = False
    show ?thesis
    proof (cases "name = ''ask-openai-vision''")
      case True
      then have keys: "set (declared_keys name)
                         = {''query'', ''image_path'', ''model'', ''temperature'', ''max_tokens''}"
        by (simp add: declared_keys_vision)
      have same: "getitem a1 ''query'' = getitem a2 ''query''"
        "getitem a1 ''image_path'' = getitem a2 ''image_path''"
        "get_default a1 ''model'' d = get_default a2 ''model'' d"
        "get_default a1 ''temperature'' d = get_default a2 ''temperature'' d"
        "get_default a1 ''max_tokens'' d = get_default a2 ''max_tokens'' d" for d
        by (simp_all add: item dflt keys)
      from assms(1,2) True show ?thesis
        by (simp add: tool_call_try_def same split: sum.splits)
    next
      case False
      with not_text assms(1,2) show ?thesis by (simp add: tool_call_try_def)
    qed
  qed
  then show ?thesis by (simp add: handle_tool_call_def)
qed

text \<open>
  C10. For any tool name, any environment and any two non-empty arguments dicts that
  agree on \<open>query\<close>, \<open>image_path\<close>, \<open>model\<close>, \<open>temperature\<close> and \<open>max_tokens\<close>,
  the two calls return the same item and leave the same effects, whatever other keys
  the dicts hold.
\<close>

theorem undeclared_arguments_ignored:
  assumes "a1 \<noteq> []" and "a2 \<noteq> []"
    and "\<forall>k \<in> {''query'', ''image_path'', ''model'', ''temperature'', ''max_tokens''}.
           map_of a1 k = map_of a2 k"
  shows "handle_tool_call env name (Some a1) w = handle_tool_call env name (Some a2) w"
proof -
  let ?five = "{''query'', ''image_path'', ''model'', ''temperature'', ''max_tokens''}"
  have sub: "set (declared_keys name) \<subseteq> ?five"
    by (cases "name = ''ask-openai''"; cases "name = ''ask-openai-vision''")
       (simp_all add: declared_keys_text declared_keys_vision,
        simp add: declared_keys_def handle_list_tools_def)
  have "\<forall>k \<in> set (declared_keys name). map_of a1 k = map_of a2 k"
  proof
    fix k
    assume "k \<in> set (declared_keys name)"
    with sub have "k \<in> ?five" by (rule subsetD)
    with assms(3) show "map_of a1 k = map_of a2 k" by (rule bspec)
  qed
  with assms(1,2) show ?thesis by (rule undeclared_keys_irrelevant)
qed

theorem undeclared_arguments_ignored_witness:
  "handle_tool_call (answering ''4'') ''ask-openai''
     (Some [(''query'', PStr ''2+2?''), (''verbose'', PBool True)]) no_effects
   = handle_tool_call (answering ''4'') ''ask-openai''
       (Some [(''trace_id'', PInt 7), (''query'', PStr ''2+2?'')]) no_effects"
proof (rule undeclared_arguments_ignored)
  show "[(''query'', PStr ''2+2?''), (''verbose'', PBool True)] \<noteq> []" by simp
  show "[(''trace_id'', PInt 7), (''query'', PStr ''2+2?'')] \<noteq> []" by simp
  show "\<forall>k \<in> {''query'', ''image_path'', ''model'', ''temperature'', ''max_tokens''}.
          map_of [(''query'', PStr ''2+2?''), (''verbose'', PBool True)] k
          = map_of [(''trace_id'', PInt 7), (''query'', PStr ''2+2?'')] k"
    by simp
qed

end
